theory Spec2Isabelle
  imports Complex_Main "HOL-Library.Word" "HOL-Library.Log_Nat"
begin

unbundle bit_operations_syntax

section \<open>Seeds and build-time failures (obfuscate.h, lines 55-100)\<close>

text \<open>
  \<open>OBFSEED\<close> is \<open>uint64_t\<close>, \<open>OBFCYCLES\<close> is \<open>int32_t\<close> (values stay far
  inside its range wherever this development computes with them; where a conversion to it
  can leave the range, the model says so).  The build seed \<open>OBFUSCATE_SEED\<close> is a macro
  of the build; it is a parameter \<open>bseed\<close> of every definition that reads it.  The only
  supported compiler is MSVC: \<open>char\<close> is signed, \<open>size_t\<close> is taken as 64 bits wide.
\<close>

type_synonym OBFSEED = "64 word"
type_synonym OBFCYCLES = int

text \<open>
  Everything but \<open>injection\<close> and \<open>surjection\<close> runs while the program is built:
  a failed \<open>assert\<close> or \<open>static_assert\<close> and a division by zero in a constant
  expression stop the build.  They are the values of this type.
\<close>

datatype error =
    DivisionByZero
  | AssertUnreachable
  | AssertSumNr
  | AssertLeftovers
  | AssertSplitSum
  | AssertOdd
  | AssertInverse
  | StaticAssert
  | OutOfRange
  | NoSuchVersion
  | NoReturn
  | NoHalfSizeInt
  | TemplateDepth

definition rbind :: "error + 'a \<Rightarrow> ('a \<Rightarrow> error + 'b) \<Rightarrow> error + 'b" where
  "rbind m f = (case m of Inl e \<Rightarrow> Inl e | Inr v \<Rightarrow> f v)"

text \<open>One round of the loop body of \<open>obf_compile_time_prng\<close>.\<close>

definition lcg_step :: "OBFSEED \<Rightarrow> OBFSEED" where
  "lcg_step r = 6364136223846793005 * r + 1442695040888963407"

text \<open>
  \<open>obf_compile_time_prng(seed, iteration)\<close>: the loop runs \<open>iteration\<close> times.
  Every caller passes a positive literal (or \<open>i + 1\<close>), so the count is a \<open>nat\<close>.
\<close>

primrec obf_compile_time_prng :: "OBFSEED \<Rightarrow> nat \<Rightarrow> OBFSEED" where
  "obf_compile_time_prng seed 0 = seed"
| "obf_compile_time_prng seed (Suc n) = obf_compile_time_prng (lcg_step seed) n"

text \<open>
  The loop of \<open>obf_seed_from_file_line\<close> over the C string: it stops at the first
  NUL; \<open>*p\<close> is a \<open>char\<close>, promoted to \<open>int\<close> and converted to \<open>uint64_t\<close>,
  which is a sign extension.
\<close>

fun obf_seed_fold :: "OBFSEED \<Rightarrow> 8 word list \<Rightarrow> OBFSEED" where
  "obf_seed_fold ret [] = ret"
| "obf_seed_fold ret (p # ps) =
     (if p = 0 then ret else obf_seed_fold ((push_bit 5 ret + ret) + scast p) ps)"

text \<open>\<open>line\<close> is an \<open>int\<close>; \<open>OBFUSCATE_SEED ^ line\<close> converts it to \<open>uint64_t\<close>.\<close>

definition obf_seed_from_file_line :: "OBFSEED \<Rightarrow> 8 word list \<Rightarrow> 32 word \<Rightarrow> OBFSEED" where
  "obf_seed_from_file_line bseed file line =
     obf_compile_time_prng (obf_seed_fold (bseed XOR scast line) file) 1"

text \<open>
  The site seed as the specification words it: fold the build seed with the line, then
  every byte with \<open>acc = acc*33 + acc + byte\<close>, then one LCG step.
\<close>

definition spec_site_seed :: "OBFSEED \<Rightarrow> 8 word list \<Rightarrow> 32 word \<Rightarrow> OBFSEED" where
  "spec_site_seed bseed file line =
     lcg_step (foldl (\<lambda>acc b. acc * 33 + acc + scast b) (bseed XOR scast line) file)"

section \<open>The inverse of an odd number modulo \<open>2^W\<close> (lines 632-674)\<close>

text \<open>
  The \<open>while\<close> loop of \<open>obf_mul_inverse_mod2n\<close>, on the six variables it updates.
  \<open>T\<close> is \<open>'a word\<close>.
\<close>

function mul_inverse_loop ::
  "'a::len word \<Rightarrow> 'a word \<Rightarrow> 'a word \<Rightarrow> 'a word \<Rightarrow> 'a word \<Rightarrow> 'a word \<Rightarrow> 'a word" where
  "mul_inverse_loop md num x lastx y lasty =
     (if num \<noteq> 0 then
        (let q = md div num; temp1 = md mod num
         in mul_inverse_loop num temp1 (lastx - q * x) x (lasty - q * y) y)
      else lasty)"
  by pat_completeness auto
termination
  by (relation "measure (\<lambda>(md, num, x, lastx, y, lasty). unat num)")
     (auto simp: unat_mod_distrib unat_gt_0 word_neq_0_conv)

text \<open>
  \<open>obf_mul_inverse_mod2n\<close>: \<open>mod\<close> starts as 0 (the power of two that does not fit),
  so \<open>T(mod - T(1))\<close> is \<open>0 - 1\<close>.  In the "zero step" the sum \<open>T(...) + T(2)\<close> is
  taken in \<open>int\<close> for the narrow types; it stays below \<open>2^W\<close> for every odd
  \<open>num\<close> that reaches it, so the word sum is the same number.
\<close>

definition obf_mul_inverse_mod2n :: "'a::len word \<Rightarrow> error + 'a word" where
  "obf_mul_inverse_mod2n num =
     (if num AND 1 = 0 then Inl AssertOdd
      else if num = 0 - 1 then Inr num
      else
        (let q = (0 - num) div num + 1;
             temp1 = ((0 - 2) mod num + 2) mod num;
             lasty = mul_inverse_loop num temp1 (1 - q * 0) 0 (0 - q * 1) 1
         in if num * lasty = 1 then Inr lasty else Inl AssertInverse))"

section \<open>Weighted choice and the constants of a build (lines 126-181)\<close>

text \<open>
  \<open>obf_weak_random(seed, n)\<close> is \<open>(seed >> 32) % n\<close>; a zero \<open>n\<close> divides by zero.
  The result is below \<open>n\<close>, so the conversion to the type of \<open>n\<close> keeps it.
\<close>

definition obf_weak_random :: "OBFSEED \<Rightarrow> nat \<Rightarrow> error + nat" where
  "obf_weak_random seed n =
     (if n = 0 then Inl DivisionByZero else Inr (unat (drop_bit 32 seed) mod n))"

text \<open>Sums of \<open>size_t\<close> values wrap at \<open>2^64\<close>.\<close>

definition size_t_sum :: "nat list \<Rightarrow> nat" where
  "size_t_sum ws = foldl (\<lambda>t w. (t + w) mod 2 ^ 64) 0 ws"

text \<open>The second loop of \<open>obf_random_from_list\<close>, from index \<open>i\<close> on.\<close>

fun obf_random_walk :: "nat \<Rightarrow> nat \<Rightarrow> nat list \<Rightarrow> error + nat" where
  "obf_random_walk refWeight i [] = Inl AssertUnreachable"
| "obf_random_walk refWeight i (w # ws) =
     (if refWeight < w then Inr i else obf_random_walk (refWeight - w) (Suc i) ws)"

definition obf_random_from_list :: "OBFSEED \<Rightarrow> nat list \<Rightarrow> error + nat" where
  "obf_random_from_list seed weights =
     rbind (obf_weak_random seed (size_t_sum weights))
       (\<lambda>refWeight. obf_random_walk refWeight 0 weights)"

text \<open>\<open>obf_find_idx_in_array\<close>: \<open>None\<close> stands for \<open>size_t(-1)\<close>.\<close>

fun obf_find_idx_in_array :: "nat list \<Rightarrow> nat \<Rightarrow> nat \<Rightarrow> nat option" where
  "obf_find_idx_in_array [] v i = None"
| "obf_find_idx_in_array (a # arr) v i =
     (if a = v then Some i else obf_find_idx_in_array arr v (Suc i))"

definition obf_candidates :: "nat list" where
  "obf_candidates = [3, 5, 7, 15, 25, 31]"

definition obf_exclude_weights :: "nat list \<Rightarrow> nat list" where
  "obf_exclude_weights excluded =
     foldl (\<lambda>weights e. case obf_find_idx_in_array obf_candidates e 0 of
                            None \<Rightarrow> weights
                          | Some found \<Rightarrow> weights[found := 0])
       [100, 100, 100, 100, 100, 100] excluded"

definition obf_const_x :: "OBFSEED \<Rightarrow> nat list \<Rightarrow> error + nat" where
  "obf_const_x seed excluded =
     rbind (obf_random_from_list seed (obf_exclude_weights excluded))
       (\<lambda>idx2. Inr (obf_candidates ! idx2))"

definition OBF_CONST_A :: "OBFSEED \<Rightarrow> error + nat" where
  "OBF_CONST_A bseed =
     obf_const_x (obf_compile_time_prng (bseed XOR 0xcec4b8ea4b89a1a9) 1) []"

definition OBF_CONST_B :: "OBFSEED \<Rightarrow> error + nat" where
  "OBF_CONST_B bseed =
     rbind (OBF_CONST_A bseed) (\<lambda>a.
       obf_const_x (obf_compile_time_prng (bseed XOR 0x5eec23716fa1d0aa) 1) [a])"

definition OBF_CONST_C :: "OBFSEED \<Rightarrow> error + nat" where
  "OBF_CONST_C bseed =
     rbind (OBF_CONST_A bseed) (\<lambda>a. rbind (OBF_CONST_B bseed) (\<lambda>b.
       obf_const_x (obf_compile_time_prng (bseed XOR 0xfb2de18f982a2d55) 1) [a, b]))"

text \<open>
  \<open>obf_random_const(seed, lst)\<close> is \<open>lst[obf_weak_random(seed, N)]\<close>; every array it
  is called with has 3 or 4 elements.
\<close>

definition obf_random_const :: "OBFSEED \<Rightarrow> nat list \<Rightarrow> nat" where
  "obf_random_const seed lst = lst ! (unat (drop_bit 32 seed) mod length lst)"

section \<open>Descriptors and the choice of a strategy (lines 184-219)\<close>

record ObfDescriptor =
  is_recursive :: bool
  min_cycles :: OBFCYCLES
  weight :: nat

definition Descr :: "bool \<Rightarrow> OBFCYCLES \<Rightarrow> nat \<Rightarrow> ObfDescriptor" where
  "Descr r c w = \<lparr> is_recursive = r, min_cycles = c, weight = w \<rparr>"

text \<open>\<open>size_t(-1)\<close>, the \<open>exclude_version\<close> that excludes nothing.\<close>

definition no_exclude :: nat where
  "no_exclude = 2 ^ 64 - 1"

text \<open>
  The first loop of \<open>obf_random_obf_from_list\<close>, from index \<open>i\<close> on: the arrays
  \<open>r_weights\<close> and \<open>nr_weights\<close>, zero wherever the loop does not write.
\<close>

fun obf_eligible_weights ::
  "OBFCYCLES \<Rightarrow> nat \<Rightarrow> nat \<Rightarrow> ObfDescriptor list \<Rightarrow> nat list \<times> nat list" where
  "obf_eligible_weights cycles exclude_version i [] = ([], [])"
| "obf_eligible_weights cycles exclude_version i (d # ds) =
     (let (r_weights, nr_weights) = obf_eligible_weights cycles exclude_version (Suc i) ds
      in if i \<noteq> exclude_version \<and> cycles \<ge> min_cycles d
         then (if is_recursive d then (weight d # r_weights, 0 # nr_weights)
               else (0 # r_weights, weight d # nr_weights))
         else (0 # r_weights, 0 # nr_weights))"

definition obf_random_obf_from_list ::
  "OBFSEED \<Rightarrow> OBFCYCLES \<Rightarrow> ObfDescriptor list \<Rightarrow> nat \<Rightarrow> error + nat" where
  "obf_random_obf_from_list seed cycles descr exclude_version =
     (let (r_weights, nr_weights) = obf_eligible_weights cycles exclude_version 0 descr;
          sum_r = size_t_sum r_weights;
          sum_nr = size_t_sum nr_weights
      in if sum_r \<noteq> 0 then obf_random_from_list seed r_weights
         else if sum_nr > 0 then obf_random_from_list seed nr_weights
         else Inl AssertSumNr)"

section \<open>Contexts and the descriptors of the six strategies (lines 323-835, 1055-1220)\<close>

text \<open>
  A \<open>Context\<close> template argument: \<open>ObfZeroLiteralContext<T>\<close>,
  \<open>ObfLiteralContext<T, seed, cycles>\<close> or \<open>ObfVarContext<T, seed, cycles>\<close>.  The type
  \<open>T\<close> is carried beside it as its width in bits.
\<close>

datatype Context =
    ObfZeroLiteralContext
  | ObfLiteralContext OBFSEED OBFCYCLES
  | ObfVarContext OBFSEED OBFCYCLES

definition obf_literal_context_descr :: "ObfDescriptor list" where
  "obf_literal_context_descr =
     [Descr False 0 1, Descr True 6 100, Descr True 20 100, Descr True 10 100,
      Descr True 100 100]"

definition ObfLiteralContext_which :: "OBFSEED \<Rightarrow> OBFCYCLES \<Rightarrow> error + nat" where
  "ObfLiteralContext_which seed cycles =
     obf_random_obf_from_list (obf_compile_time_prng seed 1) cycles
       obf_literal_context_descr no_exclude"

definition context_cycles :: "Context \<Rightarrow> error + OBFCYCLES" where
  "context_cycles ctx =
     (case ctx of
        ObfZeroLiteralContext \<Rightarrow> Inr 0
      | ObfVarContext seed cycles \<Rightarrow> Inr 0
      | ObfLiteralContext seed cycles \<Rightarrow>
          rbind (ObfLiteralContext_which seed cycles)
            (\<lambda>which. Inr (min_cycles (obf_literal_context_descr ! which))))"

definition calc_cycles :: "Context \<Rightarrow> OBFCYCLES \<Rightarrow> OBFCYCLES \<Rightarrow> OBFCYCLES" where
  "calc_cycles ctx injc surjc =
     (case ctx of ObfVarContext seed cycles \<Rightarrow> injc + surjc | _ \<Rightarrow> surjc)"

definition literal_cycles :: "Context \<Rightarrow> OBFCYCLES" where
  "literal_cycles ctx = (case ctx of ObfVarContext seed cycles \<Rightarrow> 50 | _ \<Rightarrow> 0)"

text \<open>
  \<open>own_min_cycles\<close> of version \<open>v\<close>; \<open>cc\<close> is \<open>Context::context_cycles\<close>.
\<close>

definition own_min_cycles :: "nat \<Rightarrow> Context \<Rightarrow> OBFCYCLES \<Rightarrow> OBFCYCLES" where
  "own_min_cycles v ctx cc =
     cc + (if v = 0 then calc_cycles ctx 0 0
           else if v = 1 then calc_cycles ctx 1 1
           else if v = 2 then calc_cycles ctx 7 7
           else if v = 3 then calc_cycles ctx 7 7
           else if v = 4 then calc_cycles ctx (3 + literal_cycles ctx) 3
           else calc_cycles ctx 3 3)"

text \<open>
  The array \<open>descr\<close> of \<open>obf_injection\<close> for a type of \<open>W\<close> bits:
  \<open>sizeof(T) > 1\<close> is \<open>W > 8\<close>.
\<close>

definition obf_injection_descr :: "nat \<Rightarrow> Context \<Rightarrow> OBFCYCLES \<Rightarrow> ObfDescriptor list" where
  "obf_injection_descr W ctx cc =
     [Descr False (own_min_cycles 0 ctx cc) 1,
      Descr True (own_min_cycles 1 ctx cc) 100,
      (if W > 8 then Descr True (own_min_cycles 2 ctx cc) 100 else Descr False 0 0),
      (if W > 8 then Descr True (own_min_cycles 3 ctx cc) 100 else Descr False 0 0),
      Descr True (own_min_cycles 4 ctx cc) 100,
      (if W > 8 then Descr True (own_min_cycles 5 ctx cc) 100 else Descr False 0 0)]"

section \<open>The \<open>double\<close> arithmetic of the build (lines 102-124, 236-241)\<close>

text \<open>
  \<open>obf_random_split\<close> and \<open>obf_compile_time_approximation\<close> compute in \<open>double\<close>.
  A finite \<open>double\<close> is an integer significand of at most 53 bits times a power of two;
  \<open>Double m e\<close> stands for \<open>m * 2^e\<close>.  Every operation below returns the exact result
  rounded to the nearest such number, ties to the even significand, which is what IEEE 754
  prescribes.  The exponent is not bounded here: the numbers of this program lie between
  \<open>2^-64\<close> and \<open>2^128\<close>, far from overflow and underflow.
\<close>

datatype double = Double int int


text \<open>The number of binary digits of \<open>n\<close>.\<close>

fun bit_length :: "nat \<Rightarrow> nat" where
  "bit_length n = (if n = 0 then 0 else Suc (bit_length (n div 2)))"

declare bit_length.simps [simp del]

text \<open>The fraction \<open>N / (D * 2^k)\<close> as a numerator and a denominator.\<close>

definition scale_frac :: "nat \<Rightarrow> nat \<Rightarrow> int \<Rightarrow> nat \<times> nat" where
  "scale_frac N D k = (if 0 \<le> k then (N, D * 2 ^ nat k) else (N * 2 ^ nat (- k), D))"

text \<open>\<open>N / D\<close> rounded to the nearest integer, ties to even.\<close>

definition round_nearest_even :: "nat \<Rightarrow> nat \<Rightarrow> nat" where
  "round_nearest_even N D =
     (let qq = N div D; rm = N mod D
      in if 2 * rm > D \<or> (2 * rm = D \<and> odd qq) then qq + 1 else qq)"

text \<open>
  The \<open>double\<close> nearest to \<open>p / q\<close> (\<open>q \<noteq> 0\<close>): \<open>E\<close> is the binary exponent of the
  quotient, so that the significand \<open>N / (D * 2^(E - 52))\<close> has 53 digits before the point.
\<close>

definition round_double :: "int \<Rightarrow> int \<Rightarrow> double" where
  "round_double p q =
     (if p = 0 then Double 0 0
      else
        (let N = nat \<bar>p\<bar>; D = nat \<bar>q\<bar>;
             t = int (bit_length N) - int (bit_length D);
             E = (if snd (scale_frac N D t) \<le> fst (scale_frac N D t) then t else t - 1);
             m = round_nearest_even (fst (scale_frac N D (E - 52))) (snd (scale_frac N D (E - 52)))
         in Double (sgn p * sgn q * int m) (E - 52)))"

definition double_scale :: "double \<Rightarrow> int \<Rightarrow> double" where
  "double_scale d k = (case d of Double m e \<Rightarrow> Double m (e + k))"

text \<open>Conversions from \<open>int32_t\<close> and from \<open>uint64_t\<close>/\<open>size_t\<close>.\<close>

definition double_of_int :: "int \<Rightarrow> double" where
  "double_of_int i = round_double i 1"

definition double_div :: "double \<Rightarrow> double \<Rightarrow> double" where
  "double_div a b =
     (case a of Double m1 e1 \<Rightarrow> case b of Double m2 e2 \<Rightarrow>
        double_scale (round_double m1 m2) (e1 - e2))"

definition double_mul :: "double \<Rightarrow> double \<Rightarrow> double" where
  "double_mul a b =
     (case a of Double m1 e1 \<Rightarrow> case b of Double m2 e2 \<Rightarrow>
        double_scale (round_double (m1 * m2) 1) (e1 + e2))"

definition double_add :: "double \<Rightarrow> double \<Rightarrow> double" where
  "double_add a b =
     (case a of Double m1 e1 \<Rightarrow> case b of Double m2 e2 \<Rightarrow>
        (let e0 = min e1 e2
         in double_scale
              (round_double (m1 * 2 ^ nat (e1 - e0) + m2 * 2 ^ nat (e2 - e0)) 1) e0))"

text \<open>The conversion of a \<open>double\<close> to an integer type drops the fraction.\<close>

definition double_trunc :: "double \<Rightarrow> int" where
  "double_trunc d =
     (case d of Double m e \<Rightarrow>
        if 0 \<le> e then m * 2 ^ nat e else sgn m * (\<bar>m\<bar> div 2 ^ nat (- e)))"


section \<open>Splitting a budget among siblings (lines 221-244)\<close>

text \<open>
  Conversions to \<open>OBFCYCLES\<close> (\<open>int32_t\<close>): from an unsigned value the compiler keeps
  the low 32 bits as two's complement; arithmetic that leaves the range is undefined and
  stops the evaluation of a constant expression.
\<close>

definition int32_range :: "int \<Rightarrow> bool" where
  "int32_range v \<longleftrightarrow> - (2 ^ 31) \<le> v \<and> v < 2 ^ 31"

definition to_int32 :: "nat \<Rightarrow> int" where
  "to_int32 n = (let r = int n mod 2 ^ 32 in if r < 2 ^ 31 then r else r - 2 ^ 32)"

text \<open>\<open>totalWeight += ret[i]\<close>: a \<open>size_t\<close> plus an \<open>int32_t\<close>, modulo \<open>2^64\<close>.\<close>

definition size_t_add :: "nat \<Rightarrow> int \<Rightarrow> nat" where
  "size_t_add t r = nat ((int t + r) mod 2 ^ 64)"

text \<open>The first loop: \<open>leftovers -= elements[i].min_cycles\<close>.\<close>

fun split_leftovers :: "OBFCYCLES \<Rightarrow> ObfDescriptor list \<Rightarrow> error + OBFCYCLES" where
  "split_leftovers leftovers [] = Inr leftovers"
| "split_leftovers leftovers (d # ds) =
     (if int32_range (leftovers - min_cycles d)
      then split_leftovers (leftovers - min_cycles d) ds
      else Inl OutOfRange)"

text \<open>
  The second loop, from index \<open>i\<close> on:
  \<open>ret[i] = OBFCYCLES(obf_weak_random(obf_compile_time_prng(seed, int(i+1)), weight)) + 1\<close>.
\<close>

fun split_raw :: "OBFSEED \<Rightarrow> nat \<Rightarrow> ObfDescriptor list \<Rightarrow> error + int list" where
  "split_raw seed i [] = Inr []"
| "split_raw seed i (d # ds) =
     rbind (obf_weak_random (obf_compile_time_prng seed (i + 1)) (weight d)) (\<lambda>r.
       if int32_range (to_int32 r + 1)
       then rbind (split_raw seed (Suc i) ds) (\<lambda>rs. Inr ((to_int32 r + 1) # rs))
       else Inl OutOfRange)"

text \<open>The third loop: \<open>ret[i] = OBFCYCLES(double(ret[i]) * double(q))\<close>.\<close>

fun split_scale :: "double \<Rightarrow> int list \<Rightarrow> error + int list" where
  "split_scale q [] = Inr []"
| "split_scale q (r # rs) =
     (let v = double_trunc (double_mul (double_of_int r) q)
      in if int32_range v
         then rbind (split_scale q rs) (\<lambda>vs. Inr (v # vs))
         else Inl OutOfRange)"

text \<open>
  \<open>obf_random_split\<close>.  It returns the scaled shares alone.  A \<open>totalWeight\<close> of zero
  makes \<open>q\<close> a division by zero.
\<close>

definition obf_random_split ::
  "OBFSEED \<Rightarrow> OBFCYCLES \<Rightarrow> ObfDescriptor list \<Rightarrow> error + OBFCYCLES list" where
  "obf_random_split seed cycles elements =
     rbind (split_leftovers cycles elements) (\<lambda>leftovers.
       if leftovers < 0 then Inl AssertLeftovers
       else rbind (split_raw seed 0 elements) (\<lambda>raw.
         let totalWeight = foldl size_t_add 0 raw
         in if totalWeight = 0 then Inl DivisionByZero
            else
              (let q = double_div (double_of_int leftovers) (double_of_int (int totalWeight))
               in rbind (split_scale q raw) (\<lambda>ret.
                    let totalWeight2 = foldl size_t_add 0 ret
                    in if to_int32 totalWeight2 \<le> leftovers then Inr ret
                       else Inl AssertSplitSum))))"

section \<open>Values of an unsigned type of \<open>W\<close> bits\<close>

text \<open>
  The injections work on \<open>T\<close>, one of \<open>uint8_t\<close>, \<open>uint16_t\<close>, \<open>uint32_t\<close>,
  \<open>uint64_t\<close>: a \<open>nat\<close> below \<open>2^W\<close>.  \<open>trunc_T W\<close> is the conversion to \<open>T\<close>.
  The operands of \<open>+\<close> and \<open>*\<close> are promoted to \<open>int\<close> when \<open>T\<close> is narrower than
  \<open>int\<close>, so that the result only wraps at \<open>2^W\<close> when \<open>W\<close> is 32 or 64 (or when it
  is stored in a \<open>T\<close>); \<open>promoted W\<close> is the value of such an expression.
\<close>

definition trunc_T :: "nat \<Rightarrow> nat \<Rightarrow> nat" where
  "trunc_T W x = x mod 2 ^ W"

definition promoted :: "nat \<Rightarrow> nat \<Rightarrow> nat" where
  "promoted W x = (if W < 32 then x else x mod 2 ^ W)"

text \<open>\<open>T(a - b)\<close>.\<close>

definition sub_T :: "nat \<Rightarrow> nat \<Rightarrow> nat \<Rightarrow> nat" where
  "sub_T W a b = (a + 2 ^ W - b mod 2 ^ W) mod 2 ^ W"

section \<open>The rough square root (lines 102-124)\<close>

text \<open>The arrays \<open>xref\<close> and \<open>yref\<close> of \<open>obf_sqrt_very_rough_approximation\<close>.\<close>

definition sqrt_xref :: "nat \<Rightarrow> nat" where
  "sqrt_xref i = (if i = 0 then 0 else (2 ^ (i - 1) * 2 ^ (i - 1)) mod 2 ^ 64)"

definition sqrt_yref :: "nat \<Rightarrow> nat" where
  "sqrt_yref i = (if i = 0 then 0 else 2 ^ (i - 1))"

text \<open>
  \<open>uint64_t(d)\<close> for a \<open>double\<close>: the fraction is dropped; a value outside the type
  is undefined.
\<close>

definition double_to_uint64 :: "double \<Rightarrow> error + nat" where
  "double_to_uint64 d =
     (if 0 \<le> double_trunc d \<and> double_trunc d < 2 ^ 64 then Inr (nat (double_trunc d))
      else Inl OutOfRange)"

text \<open>
  The loop of \<open>obf_compile_time_approximation\<close> over the indices still to visit:
  \<open>uint64_t(y0 + double(x - x0)*double(y1 - y0) / double(x1 - x0))\<close>.  The function has
  no \<open>return\<close> after the loop.
\<close>

fun obf_compile_time_approximation :: "nat \<Rightarrow> nat list \<Rightarrow> error + nat" where
  "obf_compile_time_approximation x [] = Inl NoReturn"
| "obf_compile_time_approximation x (i # is) =
     (if sqrt_xref i \<le> x \<and> x < sqrt_xref (i + 1)
      then double_to_uint64
             (double_add (double_of_int (int (sqrt_yref i)))
                (double_div
                   (double_mul (double_of_int (int (x - sqrt_xref i)))
                      (double_of_int (int (sqrt_yref (i + 1) - sqrt_yref i))))
                   (double_of_int (int (sqrt_xref (i + 1) - sqrt_xref i)))))
      else obf_compile_time_approximation x is)"

definition obf_sqrt_very_rough_approximation :: "nat \<Rightarrow> error + nat" where
  "obf_sqrt_very_rough_approximation x0 = obf_compile_time_approximation x0 [0..<63]"

section \<open>The leaf contexts of a literal (lines 837-1053)\<close>

text \<open>
  The constants of \<open>ObfLiteralContext_version<4, T, seed>\<close>.
\<close>

record RollingConsts =
  rc_MOD :: nat
  rc_CC :: nat
  rc_DELTA :: nat
  rc_DELTAMOD :: nat
  rc_CC0 :: nat

text \<open>
  \<open>test_n_iterations(x, n)\<close>: the two \<open>assert\<close>s are checked when the
  \<open>static_assert\<close> evaluates it.
\<close>

fun test_n_iterations :: "nat \<Rightarrow> nat \<Rightarrow> nat \<Rightarrow> nat \<Rightarrow> nat \<Rightarrow> nat \<Rightarrow> nat \<Rightarrow> bool" where
  "test_n_iterations W md cc delta deltamod x 0 = (x mod md = cc)"
| "test_n_iterations W md cc delta deltamod x (Suc n) =
     (x mod md = cc
      \<and> trunc_T W (promoted W (x + delta) mod deltamod) mod md = cc
      \<and> test_n_iterations W md cc delta deltamod
           (trunc_T W (promoted W (x + delta) mod deltamod)) n)"

text \<open>
  \<open>obf_gen_const\<close> is called here but defined nowhere in the repository: the value
  \<open>PREMODRNDCONST\<close> it returns is the parameter \<open>premodrndconst\<close>.
\<close>

definition rolling_MOD :: "nat \<Rightarrow> nat \<Rightarrow> nat" where
  "rolling_MOD W premodrndconst =
     (let PREMODMASK = trunc_T W (2 ^ (W div 2) - 1);
          PREMOD = trunc_T W premodrndconst AND PREMODMASK
      in if PREMOD = 0 then trunc_T W 100 else PREMOD)"

text \<open>\<open>MAXMUL1\<close>, \<open>MAXMUL1_ADJUSTED0\<close>, its \<open>static_assert\<close>, and \<open>MUL1\<close>.\<close>

definition rolling_MUL1 :: "nat \<Rightarrow> OBFSEED \<Rightarrow> nat \<Rightarrow> error + nat" where
  "rolling_MUL1 W seed MD =
     (let MAXMUL1 = (2 ^ W - 1) div MD
      in rbind (obf_sqrt_very_rough_approximation MAXMUL1) (\<lambda>MAXMUL1_ADJUSTED0.
           if \<not> MAXMUL1_ADJUSTED0 < 2 ^ W - 1 then Inl StaticAssert
           else if MAXMUL1 > 2
           then rbind (obf_weak_random (obf_compile_time_prng seed 2)
                         (trunc_T W MAXMUL1_ADJUSTED0))
                  (\<lambda>r. Inr (trunc_T W (1 + r)))
           else Inr 1))"

text \<open>\<open>MAXMUL2\<close> and \<open>MUL2\<close>.\<close>

definition rolling_MUL2 :: "nat \<Rightarrow> OBFSEED \<Rightarrow> nat \<Rightarrow> error + nat" where
  "rolling_MUL2 W seed DELTA =
     (let MAXMUL2 = (2 ^ W - 1) div DELTA
      in if MAXMUL2 > 2
         then rbind (obf_weak_random (obf_compile_time_prng seed 3) MAXMUL2)
                (\<lambda>r. Inr (trunc_T W (1 + r)))
         else Inr 1)"

text \<open>\<open>MUL3\<close> and \<open>CC0 = (CC + MUL3 * MOD) % DELTAMOD\<close>.\<close>

definition rolling_CC0 :: "nat \<Rightarrow> nat \<Rightarrow> nat \<Rightarrow> nat \<Rightarrow> nat \<Rightarrow> nat" where
  "rolling_CC0 W CC PREMUL3 MD DELTAMOD =
     (let MUL3 = (if PREMUL3 > 0 then PREMUL3 else 1)
      in trunc_T W (promoted W (CC + promoted W (MUL3 * MD)) mod DELTAMOD))"

text \<open>
  The constants in the order of the source; each \<open>static_assert\<close> that fails stops
  the build, as a division by zero does.
\<close>

definition obf_rolling_consts :: "nat \<Rightarrow> nat \<Rightarrow> OBFSEED \<Rightarrow> error + RollingConsts" where
  "obf_rolling_consts premodrndconst W seed =
     (let MD = rolling_MOD W premodrndconst
      in rbind (obf_weak_random (obf_compile_time_prng seed 2) MD) (\<lambda>CC.
         rbind (rolling_MUL1 W seed MD) (\<lambda>MUL1.
         let DELTA = trunc_T W (MUL1 * MD)
         in if MUL1 = 0 \<or> DELTA div MUL1 \<noteq> MD then Inl StaticAssert
            else
            rbind (rolling_MUL2 W seed DELTA) (\<lambda>MUL2.
            let DELTAMOD = trunc_T W (MUL2 * MD)
            in if MUL2 = 0 \<or> DELTAMOD div MUL2 \<noteq> MD then Inl StaticAssert
               else
               rbind (obf_weak_random (obf_compile_time_prng seed 3) MUL2) (\<lambda>PREMUL3.
               let CC0 = rolling_CC0 W CC PREMUL3 MD DELTAMOD
               in if promoted W (CC0 + DELTA) mod MD \<noteq> CC then Inl StaticAssert
                  else if \<not> test_n_iterations W MD CC DELTA DELTAMOD CC0 100
                  then Inl StaticAssert
                  else Inr \<lparr> rc_MOD = MD, rc_CC = CC, rc_DELTA = DELTA,
                             rc_DELTAMOD = DELTAMOD, rc_CC0 = CC0 \<rparr>)))))"

text \<open>
  The shared state the leaf contexts read and write while the program runs: the global
  \<open>c\<close> of each instance of version 1 and the counter \<open>c\<close> of each instance of version 4
  (an instance is a type, given by its width, and a seed), and the byte \<open>obf_peb[2]\<close>.
\<close>

record store =
  global_c :: "nat \<times> OBFSEED \<Rightarrow> nat"
  rolling_c :: "nat \<times> OBFSEED \<Rightarrow> nat"
  peb2 :: nat

text \<open>
  What \<open>Context::final_injection\<close> and \<open>Context::final_surjection\<close> are for a resolved
  context: the identity (\<open>ObfZeroLiteralContext\<close>, \<open>ObfVarContext\<close>, version 0 of the
  literal context), or one of the versions 1 to 4 with its constants.  \<open>FinalPEB\<close> carries
  whether the build keeps the anti-debug code (\<open>OBFUSCATE_DEBUG_DISABLE_ANTI_DEBUG\<close> not
  defined).
\<close>

datatype Final =
    FinalIdentity
  | FinalGlobal nat OBFSEED
  | FinalAliased
  | FinalPEB nat bool
  | FinalRolling RollingConsts OBFSEED

definition final_injection :: "nat \<Rightarrow> Final \<Rightarrow> nat \<Rightarrow> nat" where
  "final_injection W f x =
     (case f of
        FinalIdentity \<Rightarrow> x
      | FinalGlobal CC seed \<Rightarrow> trunc_T W (x + CC)
      | FinalAliased \<Rightarrow> x
      | FinalPEB CC anti_debug \<Rightarrow> trunc_T W (x + CC)
      | FinalRolling k seed \<Rightarrow> trunc_T W (x + rc_CC k))"

text \<open>
  \<open>obf_aliased_zero(&x, &yy)\<close> writes 0 and 1 through pointers to two different locals
  and returns the 0.  Version 4 first advances the counter.
\<close>

definition final_surjection :: "nat \<Rightarrow> Final \<Rightarrow> nat \<Rightarrow> store \<Rightarrow> nat \<times> store" where
  "final_surjection W f y s =
     (case f of
        FinalIdentity \<Rightarrow> (y, s)
      | FinalGlobal CC seed \<Rightarrow> (sub_T W y (global_c s (W, seed)), s)
      | FinalAliased \<Rightarrow> (sub_T W y 0, s)
      | FinalPEB CC anti_debug \<Rightarrow>
          (if anti_debug then sub_T W y (promoted W (CC * promoted W (1 + peb2 s)))
           else sub_T W y CC, s)
      | FinalRolling k seed \<Rightarrow>
          (let newC = trunc_T W (promoted W (rolling_c s (W, seed) + rc_DELTA k) mod rc_DELTAMOD k);
               s' = s \<lparr> rolling_c := (rolling_c s) ((W, seed) := newC) \<rparr>
           in (sub_T W y (newC mod rc_MOD k), s')))"


section \<open>The strategies (lines 323-835)\<close>

text \<open>
  What a build fixes besides the source: the macro \<open>OBFUSCATE_SEED\<close>, the function
  \<open>obf_gen_const\<close> (the header calls it and never defines it; here it takes the width of
  \<open>T\<close> and the seed), and whether the anti-debug code of the PEB context is kept
  (\<open>OBFUSCATE_DEBUG_DISABLE_ANTI_DEBUG\<close> is not defined).
\<close>

record Build =
  OBFUSCATE_SEED :: OBFSEED
  obf_gen_const :: "nat \<Rightarrow> OBFSEED \<Rightarrow> nat"
  anti_debug :: bool

text \<open>The array \<open>consts = { OBF_CONST_A, OBF_CONST_B, OBF_CONST_C }\<close>.\<close>

definition obf_consts :: "Build \<Rightarrow> error + nat list" where
  "obf_consts b =
     rbind (OBF_CONST_A (OBFUSCATE_SEED b)) (\<lambda>A.
     rbind (OBF_CONST_B (OBFUSCATE_SEED b)) (\<lambda>B.
     rbind (OBF_CONST_C (OBFUSCATE_SEED b)) (\<lambda>C. Inr [A, B, C])))"

text \<open>
  \<open>ObfLiteralContext<T, seed, cycles>\<close>: the version \<open>which\<close> with its constants.  The
  other two contexts are the identity.
\<close>

definition obf_context_final :: "Build \<Rightarrow> nat \<Rightarrow> Context \<Rightarrow> error + Final" where
  "obf_context_final b W ctx =
     (case ctx of
        ObfZeroLiteralContext \<Rightarrow> Inr FinalIdentity
      | ObfVarContext seed cycles \<Rightarrow> Inr FinalIdentity
      | ObfLiteralContext seed cycles \<Rightarrow>
          rbind (ObfLiteralContext_which seed cycles) (\<lambda>which.
            if which = 0 then Inr FinalIdentity
            else if which = 1 then
              rbind (obf_consts b) (\<lambda>consts.
                Inr (FinalGlobal (obf_random_const (obf_compile_time_prng seed 1) consts) seed))
            else if which = 2 then Inr FinalAliased
            else if which = 3 then
              rbind (obf_consts b) (\<lambda>consts.
                Inr (FinalPEB (obf_random_const (obf_compile_time_prng seed 1) consts)
                       (anti_debug b)))
            else if which = 4 then
              rbind (obf_rolling_consts (obf_gen_const b W (obf_compile_time_prng seed 1)) W seed)
                (\<lambda>k. Inr (FinalRolling k seed))
            else Inl NoSuchVersion))"

text \<open>
  \<open>ObfRecursiveContext<T, Context, seed, cycles>\<close> and \<open>Context::literal\<close>: the
  context of the \<open>obf_literal_ctx\<close> that holds a constant of an injection.
\<close>

definition recursive_context_type :: "Context \<Rightarrow> OBFSEED \<Rightarrow> OBFCYCLES \<Rightarrow> Context" where
  "recursive_context_type ctx seed cycles =
     (case ctx of
        ObfZeroLiteralContext \<Rightarrow> ObfZeroLiteralContext
      | ObfLiteralContext seed0 cycles0 \<Rightarrow> ObfLiteralContext (obf_compile_time_prng seed 1) cycles
      | ObfVarContext seed0 cycles0 \<Rightarrow> ObfVarContext seed cycles)"

definition side_context_type :: "Context \<Rightarrow> OBFSEED \<Rightarrow> OBFCYCLES \<Rightarrow> Context" where
  "side_context_type ctx seed cycles =
     (case ctx of
        ObfZeroLiteralContext \<Rightarrow> ObfZeroLiteralContext
      | ObfLiteralContext seed0 cycles0 \<Rightarrow> ObfLiteralContext (obf_compile_time_prng seed 2) cycles
      | ObfVarContext seed0 cycles0 \<Rightarrow> ObfVarContext seed cycles)"

definition literal_context :: "Context \<Rightarrow> Context" where
  "literal_context ctx =
     (case ctx of
        ObfZeroLiteralContext \<Rightarrow> ObfZeroLiteralContext
      | ObfLiteralContext seed cycles \<Rightarrow> ObfZeroLiteralContext
      | ObfVarContext seed cycles \<Rightarrow> ObfLiteralContext seed 50)"

text \<open>
  \<open>obf_randomized_polynomial_function_helper<T, seed, cycles>\<close>, as the expression it
  computes: \<open>x\<close>, \<open>x + x0\<close>, or the next helper applied to \<open>x * x0\<close> or to
  \<open>x + x0\<close>.
\<close>

datatype FType = FId | FPlus | FMul FType | FAdd FType

function obf_randomized_polynomial_function_helper :: "OBFSEED \<Rightarrow> OBFCYCLES \<Rightarrow> error + FType"
  where
  "obf_randomized_polynomial_function_helper seed cycles =
     (if cycles = 0 then Inr FId
      else if cycles < 3 then Inr FPlus
      else
        (case obf_random_from_list (obf_compile_time_prng seed 1) [100, 100] of
           Inl e \<Rightarrow> Inl e
         | Inr which \<Rightarrow>
             if which \<noteq> 0 then
               (case obf_randomized_polynomial_function_helper
                       (obf_compile_time_prng seed 2) (cycles - 3) of
                  Inl e \<Rightarrow> Inl e
                | Inr g \<Rightarrow> Inr (FMul g))
             else
               (case obf_randomized_polynomial_function_helper
                       (obf_compile_time_prng seed 3) (cycles - 1) of
                  Inl e \<Rightarrow> Inl e
                | Inr g \<Rightarrow> Inr (FAdd g))))"
  by pat_completeness auto
termination
  by (relation "measure (\<lambda>(seed, cycles). nat cycles)") auto

text \<open>
  \<open>operator()(T x0, T x)\<close> of the helper, for a \<open>T\<close> of \<open>H\<close> bits.  The product of two
  \<open>uint16_t\<close> is taken in \<open>int\<close> and can overflow it; the model takes the low bits, as
  the compilers do.
\<close>

fun FType_apply :: "nat \<Rightarrow> FType \<Rightarrow> nat \<Rightarrow> nat \<Rightarrow> nat" where
  "FType_apply H FId x0 x = x"
| "FType_apply H FPlus x0 x = trunc_T H (x + x0)"
| "FType_apply H (FMul g) x0 x = FType_apply H g x0 (trunc_T H (x * x0))"
| "FType_apply H (FAdd g) x0 x = FType_apply H g x0 (trunc_T H (x + x0))"

text \<open>\<open>obf_randomized_function\<close>: \<open>FType()(x)\<close> is the helper at \<open>(x, x)\<close>.\<close>

definition obf_randomized_function :: "nat \<Rightarrow> FType \<Rightarrow> nat \<Rightarrow> nat" where
  "obf_randomized_function H f x = FType_apply H f x x"

text \<open>
  A \<open>return_type\<close> is \<open>T\<close> or, for version 5, a struct of the two \<open>return_type\<close>s of
  the halves; \<open>Rep\<close> is a value of such a type.  \<open>sizeof_return_type\<close> is its size in
  bytes: the members of the struct are laid out without padding.
\<close>

datatype return_type = RScalar | RStruct return_type return_type

datatype Rep = Scalar nat | Struct Rep Rep

fun sizeof_return_type :: "nat \<Rightarrow> return_type \<Rightarrow> nat" where
  "sizeof_return_type W RScalar = W div 8"
| "sizeof_return_type W (RStruct lo hi) =
     sizeof_return_type (W div 2) lo + sizeof_return_type (W div 2) hi"

text \<open>
  \<open>*reinterpret_cast<halfT*>(&lo1)\<close> and its converse on a little-endian machine: the
  member \<open>lo\<close> comes first in memory, so it is the low half of the integer.
\<close>

fun reinterpret_as_int :: "nat \<Rightarrow> Rep \<Rightarrow> nat" where
  "reinterpret_as_int W (Scalar v) = v"
| "reinterpret_as_int W (Struct lo hi) =
     reinterpret_as_int (W div 2) lo + 2 ^ (W div 2) * reinterpret_as_int (W div 2) hi"

fun reinterpret_as :: "nat \<Rightarrow> return_type \<Rightarrow> nat \<Rightarrow> Rep" where
  "reinterpret_as W RScalar v = Scalar v"
| "reinterpret_as W (RStruct lo hi) v =
     Struct (reinterpret_as (W div 2) lo (v mod 2 ^ (W div 2)))
            (reinterpret_as (W div 2) hi (v div 2 ^ (W div 2)))"

text \<open>
  An instance of \<open>obf_injection<T, Context, seed, cycles, InjectionContext>\<close>, that is the
  \<open>obf_injection_version<which, ...>\<close> it selects, with the constants and the instances it
  refers to:
  \<^item> \<open>Version0\<close>: the context;
  \<^item> \<open>Version1\<close>: \<open>C\<close> and \<open>RecursiveInjection\<close>;
  \<^item> \<open>Version2\<close>: \<open>FType\<close> and \<open>RecursiveInjection\<close>;
  \<^item> \<open>Version3\<close>: \<open>RecursiveInjection\<close>, \<open>LoInjection\<close>, \<open>HiInjection\<close>;
  \<^item> \<open>Version4\<close>: \<open>C\<close>, \<open>CINV\<close>, the \<open>Injection\<close> of \<open>literal\<close>, and
    \<open>RecursiveInjection\<close>;
  \<^item> \<open>Version5\<close>: \<open>RecursiveInjectionLo\<close> and \<open>RecursiveInjectionHi\<close>.
\<close>

datatype Injection =
    Version0 Final
  | Version1 nat Injection
  | Version2 FType Injection
  | Version3 Injection Injection Injection
  | Version4 nat nat Injection Injection
  | Version5 Injection Injection

fun return_type_of :: "Injection \<Rightarrow> return_type" where
  "return_type_of (Version0 f) = RScalar"
| "return_type_of (Version1 C r) = return_type_of r"
| "return_type_of (Version2 f r) = return_type_of r"
| "return_type_of (Version3 r lo hi) = return_type_of r"
| "return_type_of (Version4 C CINV lit r) = return_type_of r"
| "return_type_of (Version5 lo hi) = RStruct (return_type_of lo) (return_type_of hi)"

text \<open>
  The value of a \<open>return_type\<close> that is \<open>T\<close>, and the members of one that is a struct
  (the other case of each does not arise in a program that has a type).
\<close>

fun the_scalar :: "Rep \<Rightarrow> nat" where
  "the_scalar (Scalar v) = v"
| "the_scalar (Struct lo hi) = 0"

fun member_lo :: "Rep \<Rightarrow> Rep" where
  "member_lo (Struct lo hi) = lo"
| "member_lo (Scalar v) = Scalar v"

fun member_hi :: "Rep \<Rightarrow> Rep" where
  "member_hi (Struct lo hi) = hi"
| "member_hi (Scalar v) = Scalar v"

text \<open>
  \<open>surjection\<close> for a \<open>T\<close> of \<open>W\<close> bits; it reads and writes the shared state.  In
  version 2 the difference \<open>hi - f((halfT)lo)\<close> is an \<open>int\<close> for the narrow types, and
  \<open>& mask\<close> takes its low bits, which are those of the difference in \<open>T\<close>.
\<close>

fun surjection :: "nat \<Rightarrow> Injection \<Rightarrow> Rep \<Rightarrow> store \<Rightarrow> nat \<times> store" where
  "surjection W (Version0 f) y s = final_surjection W f (the_scalar y) s"
| "surjection W (Version1 C r) y s =
     (let (v, s1) = surjection W r y s
      in (sub_T W v C, s1))"
| "surjection W (Version2 f r) y0 s =
     (let (y, s1) = surjection W r y0 s;
          halfTBits = W div 2;
          mask = trunc_T W (2 ^ halfTBits) - 1;
          hi = y div 2 ^ halfTBits;
          lo = y;
          z = sub_T W hi (obf_randomized_function halfTBits f (trunc_T halfTBits lo)) AND mask
      in (trunc_T W (z + lo * 2 ^ halfTBits), s1))"
| "surjection W (Version3 r loInj hiInj) y0 s =
     (let (y, s1) = surjection W r y0 s;
          halfTBits = W div 2;
          hi = trunc_T halfTBits (y div 2 ^ halfTBits);
          lo = trunc_T halfTBits y;
          (hi', s2) = surjection halfTBits hiInj
                        (reinterpret_as halfTBits (return_type_of hiInj) hi) s1;
          (lo', s3) = surjection halfTBits loInj
                        (reinterpret_as halfTBits (return_type_of loInj) lo) s2
      in (trunc_T W (hi' + lo' * 2 ^ halfTBits), s3))"
| "surjection W (Version4 C CINV lit r) y s =
     (let (v, s1) = surjection W r y s
      in (trunc_T W (v * C), s1))"
| "surjection W (Version5 loInj hiInj) y0 s =
     (let halfTBits = W div 2;
          (hi, s1) = surjection halfTBits hiInj (member_hi y0) s;
          (lo, s2) = surjection halfTBits loInj (member_lo y0) s1
      in (trunc_T W (lo + hi * 2 ^ halfTBits), s2))"

text \<open>
  \<open>injection\<close>.  Version 4 multiplies by \<open>literal().value()\<close>: the constructor of
  \<open>obf_literal_ctx\<close> injects \<open>CINV\<close>, and \<open>value()\<close> is the surjection of that, so
  \<open>injection\<close> too goes through the shared state.  (For \<open>uint16_t\<close> the product
  \<open>x * literal().value()\<close> is taken in \<open>int\<close> and can overflow it; the model takes the
  low bits.)
\<close>

fun injection :: "nat \<Rightarrow> Injection \<Rightarrow> nat \<Rightarrow> store \<Rightarrow> Rep \<times> store" where
  "injection W (Version0 f) x s = (Scalar (final_injection W f x), s)"
| "injection W (Version1 C r) x s = injection W r (trunc_T W (x + C)) s"
| "injection W (Version2 f r) x s =
     (let halfTBits = W div 2;
          mask = trunc_T W (2 ^ halfTBits) - 1;
          lo = x div 2 ^ halfTBits;
          hi = trunc_T W ((x AND mask)
                 + obf_randomized_function halfTBits f (trunc_T halfTBits lo))
      in injection W r (trunc_T W (hi * 2 ^ halfTBits + lo)) s)"
| "injection W (Version3 r loInj hiInj) x s =
     (let halfTBits = W div 2;
          lo = trunc_T halfTBits (x div 2 ^ halfTBits);
          (lo1, s1) = injection halfTBits loInj lo s;
          lo' = reinterpret_as_int halfTBits lo1;
          hi = trunc_T halfTBits x;
          (hi1, s2) = injection halfTBits hiInj hi s1;
          hi' = reinterpret_as_int halfTBits hi1
      in injection W r (trunc_T W (hi' * 2 ^ halfTBits + lo')) s2)"
| "injection W (Version4 C CINV lit r) x s =
     (let (val, s1) = injection W lit CINV s;
          (v, s2) = surjection W lit val s1
      in injection W r (trunc_T W (x * v)) s2)"
| "injection W (Version5 loInj hiInj) x s =
     (let halfTBits = W div 2;
          (lo, s1) = injection halfTBits loInj (trunc_T halfTBits x) s;
          (hi, s2) = injection halfTBits hiInj (trunc_T halfTBits (x div 2 ^ halfTBits)) s1
      in (Struct lo hi, s2))"

section \<open>Building an injection\<close>

text \<open>\<open>obf_half_size_int<T>\<close> exists for the types of 16, 32 and 64 bits.\<close>

definition obf_half_size_int :: "nat \<Rightarrow> error + nat" where
  "obf_half_size_int W = (if W = 16 \<or> W = 32 \<or> W = 64 then Inr (W div 2) else Inl NoHalfSizeInt)"

text \<open>\<open>obf_mul_inverse_mod2n<T>\<close> for the \<open>T\<close> of \<open>W\<close> bits.\<close>

definition obf_mul_inverse_T :: "nat \<Rightarrow> nat \<Rightarrow> error + nat" where
  "obf_mul_inverse_T W c =
     (if W = 8 then map_sum id unat (obf_mul_inverse_mod2n (of_nat c :: 8 word))
      else if W = 16 then map_sum id unat (obf_mul_inverse_mod2n (of_nat c :: 16 word))
      else if W = 32 then map_sum id unat (obf_mul_inverse_mod2n (of_nat c :: 32 word))
      else if W = 64 then map_sum id unat (obf_mul_inverse_mod2n (of_nat c :: 64 word))
      else Inl StaticAssert)"

text \<open>
  The six \<open>obf_injection_version\<close>s.  \<open>rec W ctx seed cycles exclude_version\<close> stands for
  the instance \<open>obf_injection<T, Context, seed, cycles, InjectionContext>\<close> they refer to;
  \<open>cc\<close> is \<open>Context::context_cycles\<close>.
\<close>

type_synonym instantiate = "nat \<Rightarrow> Context \<Rightarrow> OBFSEED \<Rightarrow> OBFCYCLES \<Rightarrow> nat \<Rightarrow> error + Injection"

definition obf_injection_version0 ::
  "Build \<Rightarrow> nat \<Rightarrow> Context \<Rightarrow> OBFCYCLES \<Rightarrow> OBFSEED \<Rightarrow> OBFCYCLES \<Rightarrow> error + Injection" where
  "obf_injection_version0 b W ctx cc seed cycles =
     (let availCycles = cycles - own_min_cycles 0 ctx cc
      in if \<not> availCycles \<ge> 0 then Inl StaticAssert
         else rbind (obf_context_final b W ctx) (\<lambda>f. Inr (Version0 f)))"

text \<open>\<open>consts = { 1, OBF_CONST_A, OBF_CONST_B, OBF_CONST_C }\<close> and \<open>C\<close> of version 1.\<close>

definition obf_injection_version1_C :: "Build \<Rightarrow> OBFSEED \<Rightarrow> error + nat" where
  "obf_injection_version1_C b seed =
     rbind (obf_consts b) (\<lambda>consts.
       Inr (obf_random_const (obf_compile_time_prng seed 2) (1 # consts)))"

definition obf_injection_version1 ::
  "instantiate \<Rightarrow> Build \<Rightarrow> nat \<Rightarrow> Context \<Rightarrow> OBFCYCLES \<Rightarrow> OBFSEED \<Rightarrow> OBFCYCLES
     \<Rightarrow> error + Injection" where
  "obf_injection_version1 rec b W ctx cc seed cycles =
     (let availCycles = cycles - own_min_cycles 1 ctx cc
      in if \<not> availCycles \<ge> 0 then Inl StaticAssert
         else
         rbind (rec W ctx (obf_compile_time_prng seed 1) (availCycles + cc) 1) (\<lambda>r.
         rbind (obf_injection_version1_C b seed) (\<lambda>C.
           Inr (Version1 C r))))"

definition obf_injection_version2 ::
  "instantiate \<Rightarrow> Build \<Rightarrow> nat \<Rightarrow> Context \<Rightarrow> OBFCYCLES \<Rightarrow> OBFSEED \<Rightarrow> OBFCYCLES
     \<Rightarrow> error + Injection" where
  "obf_injection_version2 rec b W ctx cc seed cycles =
     (let availCycles = cycles - own_min_cycles 2 ctx cc
      in if \<not> availCycles \<ge> 0 then Inl StaticAssert
         else
         rbind (obf_random_split (obf_compile_time_prng seed 1) availCycles
                  [Descr True 0 100, Descr True 0 100]) (\<lambda>splitCycles.
         let cycles_f = splitCycles ! 0;
             cycles_rInj = splitCycles ! 1
         in if \<not> cycles_f + cycles_rInj \<le> availCycles then Inl StaticAssert
            else
            rbind (rec W ctx (obf_compile_time_prng seed 2) (cycles_rInj + cc) no_exclude) (\<lambda>r.
            rbind (obf_half_size_int W) (\<lambda>halfTBits.
            rbind (obf_randomized_polynomial_function_helper
                     (obf_compile_time_prng seed 3) cycles_f) (\<lambda>f.
              Inr (Version2 f r))))))"

text \<open>
  The part that versions 3 and 5 share: the split of \<open>cycles_lo\<close> (or \<open>cycles_hi\<close>)
  between a context and an injection of the half: the seeds are \<open>seed\<close> at
  \<open>k\<close>, \<open>k + 1\<close> and \<open>k + 2\<close> iterations (2, 3, 4 for \<open>Lo\<close> and 5, 6, 7 for \<open>Hi\<close>), and
  \<open>half_context\<close> is \<open>side_context_type\<close> or \<open>recursive_context_type\<close>.
\<close>

definition obf_half_injection ::
  "instantiate \<Rightarrow> (Context \<Rightarrow> OBFSEED \<Rightarrow> OBFCYCLES \<Rightarrow> Context) \<Rightarrow> nat \<Rightarrow> Context \<Rightarrow> OBFSEED
     \<Rightarrow> nat \<Rightarrow> OBFCYCLES \<Rightarrow> error + Injection" where
  "obf_half_injection rec half_context halfTBits ctx seed k cycles_half =
     rbind (obf_random_split (obf_compile_time_prng seed k) cycles_half
              [Descr True 0 100, Descr True 0 100]) (\<lambda>splitCyclesHalf.
     let cycles_Ctx = splitCyclesHalf ! 0;
         cycles_Inj = splitCyclesHalf ! 1
     in if \<not> cycles_Ctx + cycles_Inj \<le> cycles_half then Inl StaticAssert
        else
        let HalfContext = half_context ctx (obf_compile_time_prng seed (k + 1)) cycles_Ctx
        in rbind (context_cycles HalfContext) (\<lambda>hcc.
           rec halfTBits HalfContext (obf_compile_time_prng seed (k + 2)) (cycles_Inj + hcc)
             no_exclude))"

definition obf_injection_version3 ::
  "instantiate \<Rightarrow> Build \<Rightarrow> nat \<Rightarrow> Context \<Rightarrow> OBFCYCLES \<Rightarrow> OBFSEED \<Rightarrow> OBFCYCLES
     \<Rightarrow> error + Injection" where
  "obf_injection_version3 rec b W ctx cc seed cycles =
     (let availCycles = cycles - own_min_cycles 3 ctx cc
      in if \<not> availCycles \<ge> 0 then Inl StaticAssert
         else
         rbind (obf_half_size_int W) (\<lambda>halfTBits.
         rbind (obf_random_split (obf_compile_time_prng seed 1) availCycles
                  [Descr True 0 200, Descr True 0 100, Descr True 0 100]) (\<lambda>splitCycles.
         let cycles_rInj = splitCycles ! 0;
             cycles_lo = splitCycles ! 1;
             cycles_hi = splitCycles ! 2
         in if \<not> cycles_rInj + cycles_lo + cycles_hi \<le> availCycles then Inl StaticAssert
            else
            rbind (rec W ctx (obf_compile_time_prng seed 2) (cycles_rInj + cc) no_exclude) (\<lambda>r.
            rbind (obf_half_injection rec side_context_type halfTBits ctx seed 2 cycles_lo)
              (\<lambda>loInj.
            if sizeof_return_type halfTBits (return_type_of loInj) \<noteq> halfTBits div 8
            then Inl StaticAssert
            else
            rbind (obf_half_injection rec side_context_type halfTBits ctx seed 5 cycles_hi)
              (\<lambda>hiInj.
            if sizeof_return_type halfTBits (return_type_of hiInj) \<noteq> halfTBits div 8
            then Inl StaticAssert
            else Inr (Version3 r loInj hiInj)))))))"

text \<open>
  Version 4: \<open>C\<close> is one of the three constants; \<open>literal\<close> is an
  \<open>obf_literal_ctx<T, CINV, ..., obf_compile_time_prng(seed, 3), literal_cycles>\<close>, whose
  \<open>Injection\<close> takes one more iteration of the seed.
\<close>

definition obf_injection_version4 ::
  "instantiate \<Rightarrow> Build \<Rightarrow> nat \<Rightarrow> Context \<Rightarrow> OBFCYCLES \<Rightarrow> OBFSEED \<Rightarrow> OBFCYCLES
     \<Rightarrow> error + Injection" where
  "obf_injection_version4 rec b W ctx cc seed cycles =
     (let availCycles = cycles - own_min_cycles 4 ctx cc
      in if \<not> availCycles \<ge> 0 then Inl StaticAssert
         else
         rbind (rec W ctx (obf_compile_time_prng seed 1) (availCycles + cc) 4) (\<lambda>r.
         rbind (obf_consts b) (\<lambda>consts.
         let C = obf_random_const (obf_compile_time_prng seed 2) consts
         in if C AND 1 \<noteq> 1 then Inl StaticAssert
            else
            rbind (obf_mul_inverse_T W C) (\<lambda>CINV.
            if trunc_T W (C * CINV) \<noteq> trunc_T W 1 then Inl StaticAssert
            else
            rbind (rec W (literal_context ctx)
                     (obf_compile_time_prng (obf_compile_time_prng seed 3) 1)
                     (literal_cycles ctx) no_exclude) (\<lambda>lit.
              Inr (Version4 C CINV lit r))))))"

definition obf_injection_version5 ::
  "instantiate \<Rightarrow> Build \<Rightarrow> nat \<Rightarrow> Context \<Rightarrow> OBFCYCLES \<Rightarrow> OBFSEED \<Rightarrow> OBFCYCLES
     \<Rightarrow> error + Injection" where
  "obf_injection_version5 rec b W ctx cc seed cycles =
     (let availCycles = cycles - own_min_cycles 5 ctx cc
      in if \<not> availCycles \<ge> 0 then Inl StaticAssert
         else
         rbind (obf_half_size_int W) (\<lambda>halfTBits.
         rbind (obf_random_split (obf_compile_time_prng seed 1) availCycles
                  [Descr True 0 100, Descr True 0 100]) (\<lambda>splitCycles.
         let cycles_lo = splitCycles ! 0;
             cycles_hi = splitCycles ! 1
         in if \<not> cycles_lo + cycles_hi \<le> availCycles then Inl StaticAssert
            else
            rbind (obf_half_injection rec recursive_context_type halfTBits ctx seed 2 cycles_lo)
              (\<lambda>loInj.
            rbind (obf_half_injection rec recursive_context_type halfTBits ctx seed 5 cycles_hi)
              (\<lambda>hiInj.
              Inr (Version5 loInj hiInj))))))"

text \<open>
  \<open>obf_injection<T, Context, seed, cycles, InjectionContext>\<close>.  A compiler instantiates
  templates to a bounded depth only; \<open>depth\<close> is what is left of it.
\<close>

primrec obf_injection ::
  "nat \<Rightarrow> Build \<Rightarrow> nat \<Rightarrow> Context \<Rightarrow> OBFSEED \<Rightarrow> OBFCYCLES \<Rightarrow> nat \<Rightarrow> error + Injection" where
  "obf_injection 0 b W ctx seed cycles exclude_version = Inl TemplateDepth"
| "obf_injection (Suc depth) b W ctx seed cycles exclude_version =
     rbind (context_cycles ctx) (\<lambda>cc.
     rbind (obf_random_obf_from_list (obf_compile_time_prng seed 1) cycles
              (obf_injection_descr W ctx cc) exclude_version) (\<lambda>which.
       if which = 0 then obf_injection_version0 b W ctx cc seed cycles
       else if which = 1 then obf_injection_version1 (obf_injection depth b) b W ctx cc seed cycles
       else if which = 2 then obf_injection_version2 (obf_injection depth b) b W ctx cc seed cycles
       else if which = 3 then obf_injection_version3 (obf_injection depth b) b W ctx cc seed cycles
       else if which = 4 then obf_injection_version4 (obf_injection depth b) b W ctx cc seed cycles
       else if which = 5 then obf_injection_version5 (obf_injection depth b) b W ctx cc seed cycles
       else Inl NoSuchVersion))"

section \<open>Obfuscated variables (lines 1222-1330, 1436-1500)\<close>

text \<open>
  \<open>obf_var<T_, seed, cycles>\<close>: its \<open>Injection\<close>, and its member functions on the member
  \<open>val\<close>.  A value of \<open>T_\<close> is given by the \<open>W\<close> bits of its conversion to the unsigned
  \<open>T\<close>.
\<close>

definition obf_var_Injection ::
  "nat \<Rightarrow> Build \<Rightarrow> nat \<Rightarrow> OBFSEED \<Rightarrow> OBFCYCLES \<Rightarrow> error + Injection" where
  "obf_var_Injection depth b W seed cycles =
     obf_injection depth b W (ObfVarContext (obf_compile_time_prng seed 1) cycles)
       (obf_compile_time_prng seed 2) cycles no_exclude"

text \<open>The constructor \<open>obf_var(T_ t)\<close> and \<open>operator =(T_ t)\<close>: the new \<open>val\<close>.\<close>

definition obf_var_assign :: "nat \<Rightarrow> Injection \<Rightarrow> nat \<Rightarrow> store \<Rightarrow> Rep \<times> store" where
  "obf_var_assign W Inj t s = injection W Inj (trunc_T W t) s"

definition obf_var_value :: "nat \<Rightarrow> Injection \<Rightarrow> Rep \<Rightarrow> store \<Rightarrow> nat \<times> store" where
  "obf_var_value W Inj val s = surjection W Inj val s"

text \<open>
  \<open>operator--(int)\<close>: \<open>obf_var ret = obf_var(value()); *this = value() + 1; return ret;\<close>.
  The result is \<open>ret\<close>, the new \<open>val\<close> of \<open>*this\<close>, and the shared state.
\<close>

definition obf_var_post_decrement ::
  "nat \<Rightarrow> Injection \<Rightarrow> Rep \<Rightarrow> store \<Rightarrow> Rep \<times> Rep \<times> store" where
  "obf_var_post_decrement W Inj val s =
     (let (v1, s1) = obf_var_value W Inj val s;
          (ret, s2) = obf_var_assign W Inj v1 s1;
          (v2, s3) = obf_var_value W Inj val s2;
          (val', s4) = obf_var_assign W Inj (v2 + 1) s3
      in (ret, val', s4))"

text \<open>
  \<open>obf_var_dbg<T>\<close> holds the value itself; its \<open>operator--(int)\<close> is the same
  statement.  The result is \<open>ret\<close> and the new \<open>val\<close> of \<open>*this\<close>.
\<close>

definition obf_var_dbg_assign :: "nat \<Rightarrow> nat \<Rightarrow> nat" where
  "obf_var_dbg_assign W t = trunc_T W t"

definition obf_var_dbg_value :: "nat \<Rightarrow> nat" where
  "obf_var_dbg_value val = val"

definition obf_var_dbg_post_decrement :: "nat \<Rightarrow> nat \<Rightarrow> nat \<times> nat" where
  "obf_var_dbg_post_decrement W val =
     (let ret = obf_var_dbg_assign W (obf_var_dbg_value val);
          val' = obf_var_dbg_assign W (obf_var_dbg_value val + 1)
      in (ret, val'))"

section \<open>The shared state of a running program\<close>

text \<open>
  The state a program starts in: every \<open>c\<close> of version 1 is initialised to its \<open>CC\<close>,
  every \<open>c\<close> of version 4 to its \<open>CC0\<close>; \<open>obf_peb[2]\<close> is the byte \<open>BeingDebugged\<close> of
  the process, \<open>debugged\<close> here.
\<close>

definition global_CC :: "Build \<Rightarrow> OBFSEED \<Rightarrow> nat" where
  "global_CC b seed =
     (case obf_consts b of
        Inl e \<Rightarrow> 0
      | Inr consts \<Rightarrow> obf_random_const (obf_compile_time_prng seed 1) consts)"

definition rolling_consts_of :: "Build \<Rightarrow> nat \<Rightarrow> OBFSEED \<Rightarrow> error + RollingConsts" where
  "rolling_consts_of b W seed =
     obf_rolling_consts (obf_gen_const b W (obf_compile_time_prng seed 1)) W seed"

definition initial_store :: "Build \<Rightarrow> nat \<Rightarrow> store" where
  "initial_store b debugged =
     \<lparr> global_c = (\<lambda>(W, seed). global_CC b seed),
       rolling_c = (\<lambda>(W, seed). case rolling_consts_of b W seed of
                                   Inl e \<Rightarrow> 0 | Inr k \<Rightarrow> rc_CC0 k),
       peb2 = debugged \<rparr>"

text \<open>
  What holds of the shared state of a running program that is not being debugged: no
  \<open>c\<close> of version 1 is ever written, every counter \<open>c\<close> of version 4 is below its
  \<open>DELTAMOD\<close> and congruent to its \<open>CC\<close> modulo its \<open>MOD\<close>, and \<open>obf_peb[2]\<close> is 0 where
  the anti-debug code reads it.
\<close>

definition store_ok :: "Build \<Rightarrow> store \<Rightarrow> bool" where
  "store_ok b s =
     ((\<forall>W seed. global_c s (W, seed) = global_CC b seed)
      \<and> (\<forall>W seed k. rolling_consts_of b W seed = Inr k \<longrightarrow>
            rolling_c s (W, seed) < rc_DELTAMOD k
            \<and> rolling_c s (W, seed) mod rc_MOD k = rc_CC k)
      \<and> (anti_debug b \<longrightarrow> peb2 s = 0))"

text \<open>
  An injection of a build for a \<open>T\<close> of \<open>W\<close> bits: the halves are halves, \<open>CINV\<close> is
  the inverse of \<open>C\<close>, and the constants of each context are those of the build.
\<close>

definition Final_of_build :: "Build \<Rightarrow> nat \<Rightarrow> Final \<Rightarrow> bool" where
  "Final_of_build b W f =
     (case f of
        FinalIdentity \<Rightarrow> True
      | FinalGlobal CC seed \<Rightarrow> CC = global_CC b seed
      | FinalAliased \<Rightarrow> True
      | FinalPEB CC ad \<Rightarrow> ad = anti_debug b
      | FinalRolling k seed \<Rightarrow> rolling_consts_of b W seed = Inr k)"

fun Injection_of_build :: "Build \<Rightarrow> nat \<Rightarrow> Injection \<Rightarrow> bool" where
  "Injection_of_build b W (Version0 f) = (W \<in> {8, 16, 32, 64} \<and> Final_of_build b W f)"
| "Injection_of_build b W (Version1 C r) = Injection_of_build b W r"
| "Injection_of_build b W (Version2 f r) = (W \<in> {16, 32, 64} \<and> Injection_of_build b W r)"
| "Injection_of_build b W (Version3 r loInj hiInj) =
     (W \<in> {16, 32, 64} \<and> Injection_of_build b W r
      \<and> Injection_of_build b (W div 2) loInj \<and> Injection_of_build b (W div 2) hiInj)"
| "Injection_of_build b W (Version4 C CINV lit r) =
     (trunc_T W (C * CINV) = 1 \<and> CINV < 2 ^ W
      \<and> Injection_of_build b W lit \<and> Injection_of_build b W r)"
| "Injection_of_build b W (Version5 loInj hiInj) =
     (W \<in> {16, 32, 64}
      \<and> Injection_of_build b (W div 2) loInj \<and> Injection_of_build b (W div 2) hiInj)"

fun Rep_of_type :: "nat \<Rightarrow> return_type \<Rightarrow> Rep \<Rightarrow> bool" where
  "Rep_of_type W RScalar (Scalar v) = (v < 2 ^ W)"
| "Rep_of_type W (RStruct tlo thi) (Struct lo hi) =
     (Rep_of_type (W div 2) tlo lo \<and> Rep_of_type (W div 2) thi hi)"
| "Rep_of_type W RScalar (Struct lo hi) = False"
| "Rep_of_type W (RStruct tlo thi) (Scalar v) = False"
section \<open>The site seed\<close>

lemma obf_seed_fold_foldl:
  "obf_seed_fold ret path =
     foldl (\<lambda>acc b. 33 * acc + scast b) ret (takeWhile (\<lambda>b. b \<noteq> 0) path)"
proof (induction path arbitrary: ret)
  case Nil
  show ?case by simp
next
  case (Cons p ps)
  have "push_bit 5 ret + ret = 33 * ret" for ret :: OBFSEED
    by (simp add: push_bit_eq_mult)
  with Cons show ?case by simp
qed

text \<open>
  C8 (as amended): the site seed is one LCG step (multiplier 6364136223846793005,
  increment 1442695040888963407, modulo \<open>2^64\<close>) of the build seed XOR-ed with the
  line and then folded over the bytes of the path up to its terminator with
  \<open>acc = 33*acc + byte\<close> (\<open>(acc << 5) + acc + byte\<close>, the byte sign-extended).
\<close>

theorem C8_site_seed:
  "obf_seed_from_file_line bseed file line =
     6364136223846793005
       * foldl (\<lambda>acc b. 33 * acc + scast b) (bseed XOR scast line)
           (takeWhile (\<lambda>b. b \<noteq> 0) file)
     + 1442695040888963407"
  by (simp add: obf_seed_from_file_line_def obf_seed_fold_foldl lcg_step_def)

text \<open>
  C8 as stated fails: with build seed 1, line 0 and the path \<open>"a"\<close> the code folds to
  \<open>33*1 + 97 = 130\<close>, the claimed update \<open>acc*33 + acc + byte\<close> to \<open>131\<close>.
\<close>

theorem C8_counterexample:
  "obf_seed_from_file_line 1 [97] 0 \<noteq> spec_site_seed 1 [97] 0"
  by (simp add: obf_seed_from_file_line_def spec_site_seed_def lcg_step_def)

section \<open>The modular inverse\<close>

lemma loop_inv:
  "lasty * n0 = md \<Longrightarrow> y * n0 = num \<Longrightarrow> gcd (unat md) (unat num) = 1 \<Longrightarrow>
   mul_inverse_loop md num x lastx y lasty * n0 = 1"
proof (induction md num x lastx y lasty rule: mul_inverse_loop.induct)
  case (1 md num x lastx y lasty)
  show ?case
  proof (cases "num = 0")
    case True
    with 1(4) have "unat md = 1" by simp
    then have "md = 1" by (simp add: word_unat_eq_iff)
    with True 1(2) show ?thesis by simp
  next
    case False
    have a: "(lasty - md div num * y) * n0 = md mod num"
    proof -
      have "(lasty - md div num * y) * n0 = lasty * n0 - md div num * (y * n0)"
        by (simp add: algebra_simps)
      also have "\<dots> = md - md div num * num" using 1(2,3) by simp
      also have "\<dots> = md mod num" by (simp add: minus_div_mult_eq_mod)
      finally show ?thesis .
    qed
    have b: "gcd (unat num) (unat (md mod num)) = 1"
      using 1(4) by (simp add: unat_mod_distrib gcd.commute gcd_red_nat[symmetric])
    have "mul_inverse_loop num (md mod num) (lastx - md div num * x) x (lasty - md div num * y) y * n0 = 1"
      using 1(1)[OF False refl refl 1(3) a b] .
    with False show ?thesis by (simp add: Let_def)
  qed
qed

lemma odd_word_unat: "(num :: 'a::len word) AND 1 \<noteq> 0 \<Longrightarrow> odd (unat num)"
  by (simp add: and_one_eq) (metis even_of_nat odd_iff_mod_2_eq_one of_nat_unat ucast_id)

lemma zero_step_q:
  fixes num :: "'a::len word"
  shows "(0 - ((0 - num) div num + 1) * 1) * num = (0 - num) mod num"
proof -
  define m where "m = 0 - num"
  define d where "d = m div num"
  have dn: "d * num = m - m mod num"
    unfolding d_def by (simp add: minus_mod_eq_div_mult)
  have "(0 - (d + 1) * 1) * num = 0 - (d * num) - num"
    by (simp add: ring_distribs)
  also have "\<dots> = m mod num" unfolding dn m_def by simp
  finally show ?thesis unfolding d_def m_def .
qed

lemma unat_neg_word:
  fixes w :: "'a::len word"
  shows "w \<noteq> 0 \<Longrightarrow> unat (0 - w) = 2 ^ LENGTH('a) - unat w"
  using unat_sub_if'[of 0 w] by (simp add: unat_eq_zero)

lemma zero_step_temp1:
  fixes num :: "'a::len word"
  assumes od: "odd (unat num)" and ne: "num \<noteq> 0 - 1"
  shows "unat (((0 - 2) mod num + 2) mod num) = 2 ^ LENGTH('a) mod unat num"
    and "unat ((0 - num) mod num) = 2 ^ LENGTH('a) mod unat num"
proof -
  let ?M = "2 ^ LENGTH('a) :: nat"
  let ?n = "unat num"
  have n0: "0 < ?n" using od by (cases "?n = 0") auto
  have nlt: "?n < ?M" by (rule unsigned_less)
  have nne: "?n \<noteq> ?M - 1"
  proof
    assume "?n = ?M - 1"
    then have "?n = unat (0 - 1 :: 'a word)" using unat_neg_word[of "1 :: 'a word"] by simp
    then have "num = 0 - 1" by (simp only: word_unat_eq_iff)
    with ne show False by simp
  qed
  have Meven: "even ?M" by simp
  have n3: "?n + 3 \<le> ?M"
  proof -
    show ?thesis using od Meven nlt nne by presburger
  qed
  have two: "unat (2 :: 'a word) = 2"
  proof -
    have "(2::nat) < ?M" using n3 by linarith
    then show ?thesis by (auto simp add: unsigned_numeral take_bit_nat_eq_self)
  qed
  then have "(2 :: 'a word) \<noteq> 0" by (metis unat_0 zero_neq_numeral)
  then have m2: "unat (0 - 2 :: 'a word) = ?M - 2"
    using unat_neg_word[of "2 :: 'a word"] two by simp
  have a: "unat ((0 - 2) mod num) = (?M - 2) mod ?n"
    by (simp only: unat_mod_distrib m2)
  have lt: "(?M - 2) mod ?n + 2 < ?M"
  proof -
    have "(?M - 2) mod ?n < ?n" using n0 by simp
    with n3 show ?thesis by linarith
  qed
  have b: "unat ((0 - 2) mod num + 2) = (?M - 2) mod ?n + 2"
    using lt by (simp only: unat_word_ariths(1) a two mod_less)
  have "unat (((0 - 2) mod num + 2) mod num) = ((?M - 2) mod ?n + 2) mod ?n"
    by (simp only: unat_mod_distrib b)
  also have "\<dots> = (?M - 2 + 2) mod ?n" by (rule mod_add_left_eq)
  also have "?M - 2 + 2 = ?M" using n3 by linarith
  finally show "unat (((0 - 2) mod num + 2) mod num) = ?M mod ?n" .
  have "num \<noteq> 0" using n0 by (simp add: unat_gt_0)
  then have "unat (0 - num) = ?M - ?n"
    by (rule unat_neg_word)
  then have "unat ((0 - num) mod num) = (?M - ?n) mod ?n"
    by (simp only: unat_mod_distrib)
  also have "\<dots> = ?M mod ?n" using le_mod_geq[OF less_imp_le[OF nlt]] by simp
  finally show "unat ((0 - num) mod num) = ?M mod ?n" .
qed

lemma odd_coprime_pow2: "odd (n::nat) \<Longrightarrow> gcd n (2 ^ k mod n) = 1"
proof -
  assume "odd n"
  then have "coprime (2 ^ k) n" by simp
  then have "gcd (2 ^ k) n = 1" by (simp only: coprime_iff_gcd_eq_1)
  then show ?thesis by (simp only: gcd_red_nat[of "2 ^ k" n])
qed

text \<open>
  C2: for every odd \<open>num\<close> of an unsigned type of any width, \<open>obf_mul_inverse_mod2n\<close>
  returns (its final assertion holds) a value \<open>inv\<close> with \<open>T(num * inv) == T(1)\<close>.
\<close>

theorem C2_inverse:
  fixes num :: "'a::len word"
  assumes "num AND 1 \<noteq> 0"
  shows "\<exists>inv. obf_mul_inverse_mod2n num = Inr inv \<and> num * inv = 1"
proof (cases "num = 0 - 1")
  case True
  have "obf_mul_inverse_mod2n num = Inr num"
    unfolding obf_mul_inverse_mod2n_def using assms True by (simp only: if_False if_True simp_thms)
  moreover have "num * num = 1" unfolding True by simp
  ultimately show ?thesis by blast
next
  case False
  have od: "odd (unat num)" using assms by (rule odd_word_unat)
  define q where "q = (0 - num) div num + 1"
  define t where "t = ((0 - 2) mod num + 2) mod num"
  have "t = (0 - num) mod num"
    unfolding t_def using zero_step_temp1[OF od False] by (simp only: word_unat_eq_iff)
  then have y: "(0 - q * 1) * num = t"
    unfolding q_def by (simp only: zero_step_q)
  have g: "gcd (unat num) (unat t) = 1"
    unfolding t_def zero_step_temp1(1)[OF od False] by (rule odd_coprime_pow2[OF od])
  have "mul_inverse_loop num t (1 - q * 0) 0 (0 - q * 1) 1 * num = 1"
    by (rule loop_inv[OF _ y g]) simp
  then have L: "num * mul_inverse_loop num t (1 - q * 0) 0 (0 - q * 1) 1 = 1"
    by (simp only: mult.commute)
  have "obf_mul_inverse_mod2n num = Inr (mul_inverse_loop num t (1 - q * 0) 0 (0 - q * 1) 1)"
    unfolding obf_mul_inverse_mod2n_def Let_def q_def[symmetric] t_def[symmetric]
    using assms False L by (simp only: if_False if_True simp_thms)
  with L show ?thesis by blast
qed

theorem C2_inverse_witness:
  "(7 :: 8 word) AND 1 \<noteq> 0
   \<and> (\<exists>inv. obf_mul_inverse_mod2n (7 :: 8 word) = Inr inv \<and> 7 * inv = 1)"
  using C2_inverse [of "7 :: 8 word"] by simp

section \<open>Weighted choice\<close>

lemma rbind_Inr_iff:
  "rbind m f = Inr v \<longleftrightarrow> (\<exists>u. m = Inr u \<and> f u = Inr v)"
  by (cases m) (simp_all add: rbind_def)

lemma rbind_Inr [simp]: "rbind (Inr u) f = f u"
  by (simp add: rbind_def)

lemma rbind_Inl [simp]: "rbind (Inl e) f = Inl e"
  by (simp add: rbind_def)



lemma size_t_sum_foldl_le:
  "foldl (\<lambda>t w. (t + w) mod 2 ^ 64) a ws \<le> a + sum_list (ws :: nat list)"
proof (induction ws arbitrary: a)
  case Nil
  show ?case by simp
next
  case (Cons w ws)
  have "foldl (\<lambda>t w. (t + w) mod 2 ^ 64) ((a + w) mod 2 ^ 64) ws \<le> (a + w) mod 2 ^ 64 + sum_list ws"
    by (rule Cons.IH)
  also have "\<dots> \<le> a + w + sum_list ws" by simp
  finally show ?case by simp
qed

lemma size_t_sum_le: "size_t_sum ws \<le> sum_list ws"
  using size_t_sum_foldl_le [of 0 ws] by (simp add: size_t_sum_def)

lemma size_t_sum_foldl_small:
  "a + sum_list ws < 2 ^ 64 \<Longrightarrow>
   foldl (\<lambda>t w. (t + w) mod 2 ^ 64) a ws = a + sum_list (ws :: nat list)"
  by (induction ws arbitrary: a) (simp_all add: add.assoc)

lemma size_t_sum_small: "sum_list ws < 2 ^ 64 \<Longrightarrow> size_t_sum ws = sum_list ws"
  using size_t_sum_foldl_small [of 0 ws] by (simp add: size_t_sum_def)

lemma obf_random_walk_finds:
  "r < sum_list ws \<Longrightarrow>
   \<exists>j. obf_random_walk r i ws = Inr j \<and> i \<le> j \<and> j < i + length ws \<and> 0 < ws ! (j - i)"
proof (induction ws arbitrary: r i)
  case Nil
  then show ?case by simp
next
  case (Cons w ws)
  show ?case
  proof (cases "r < w")
    case True
    then show ?thesis by simp
  next
    case False
    with Cons.prems have "r - w < sum_list ws" by simp
    from Cons.IH [OF this, of "Suc i"] obtain j where
      j: "obf_random_walk (r - w) (Suc i) ws = Inr j" "Suc i \<le> j" "j < Suc i + length ws"
         "0 < ws ! (j - Suc i)" by blast
    from j(2) have "(w # ws) ! (j - i) = ws ! (j - Suc i)"
      by (simp add: nth_Cons' Suc_le_eq)
    with j False show ?thesis by simp
  qed
qed

lemma obf_random_walk_sound:
  "obf_random_walk r i ws = Inr j \<Longrightarrow> i \<le> j \<and> j < i + length ws \<and> 0 < ws ! (j - i)"
proof (induction ws arbitrary: r i)
  case Nil
  then show ?case by simp
next
  case (Cons w ws)
  show ?case
  proof (cases "r < w")
    case True
    with Cons.prems show ?thesis by simp
  next
    case False
    with Cons.prems have w: "obf_random_walk (r - w) (Suc i) ws = Inr j" by simp
    from Cons.IH [OF w] have j: "Suc i \<le> j" "j < Suc i + length ws" "0 < ws ! (j - Suc i)"
      by simp_all
    from j(1) have "(w # ws) ! (j - i) = ws ! (j - Suc i)"
      by (simp add: nth_Cons' Suc_le_eq)
    with j show ?thesis by simp
  qed
qed

lemma obf_random_from_list_total:
  assumes "size_t_sum ws \<noteq> 0"
  shows "\<exists>j. obf_random_from_list seed ws = Inr j \<and> j < length ws \<and> 0 < ws ! j"
proof -
  let ?r = "unat (drop_bit 32 seed) mod size_t_sum ws"
  have "?r < size_t_sum ws" using assms by simp
  also have "\<dots> \<le> sum_list ws" by (rule size_t_sum_le)
  finally have "?r < sum_list ws" .
  from obf_random_walk_finds [OF this, of 0] assms show ?thesis
    by (simp add: obf_random_from_list_def obf_weak_random_def)
qed

lemma obf_random_from_list_sound:
  assumes "obf_random_from_list seed ws = Inr j"
  shows "j < length ws \<and> 0 < ws ! j"
proof -
  from assms obtain r where "obf_random_walk r 0 ws = Inr j"
    by (auto simp: obf_random_from_list_def rbind_Inr_iff)
  from obf_random_walk_sound [OF this] show ?thesis by simp
qed

text \<open>What the first loop of the selection writes.\<close>

lemma obf_eligible_weights_length:
  "length (fst (obf_eligible_weights cycles ex i ds)) = length ds
   \<and> length (snd (obf_eligible_weights cycles ex i ds)) = length ds"
  by (induction ds arbitrary: i) (simp_all add: Let_def case_prod_beta)

lemma obf_eligible_weights_nth:
  "k < length ds \<Longrightarrow>
   fst (obf_eligible_weights cycles ex i ds) ! k =
     (if i + k \<noteq> ex \<and> min_cycles (ds ! k) \<le> cycles \<and> is_recursive (ds ! k)
      then weight (ds ! k) else 0)
   \<and> snd (obf_eligible_weights cycles ex i ds) ! k =
     (if i + k \<noteq> ex \<and> min_cycles (ds ! k) \<le> cycles \<and> \<not> is_recursive (ds ! k)
      then weight (ds ! k) else 0)"
proof (induction ds arbitrary: i k)
  case Nil
  then show ?case by simp
next
  case (Cons d ds)
  show ?case
  proof (cases k)
    case 0
    then show ?thesis by (simp add: Let_def case_prod_beta)
  next
    case (Suc k')
    with Cons.prems have "k' < length ds" by simp
    from Cons.IH [OF this, of "Suc i"] Suc show ?thesis
      by (simp add: Let_def case_prod_beta)
  qed
qed

text \<open>Whatever the selection returns is an eligible strategy of positive weight.\<close>

lemma obf_random_obf_from_list_sound:
  assumes "obf_random_obf_from_list seed cycles descr ex = Inr j"
  shows "j < length descr \<and> j \<noteq> ex \<and> min_cycles (descr ! j) \<le> cycles
         \<and> 0 < weight (descr ! j)"
proof -
  obtain r nr where e: "obf_eligible_weights cycles ex 0 descr = (r, nr)"
    by (cases "obf_eligible_weights cycles ex 0 descr")
  from assms e have "obf_random_from_list seed r = Inr j \<or> obf_random_from_list seed nr = Inr j"
    by (simp add: obf_random_obf_from_list_def Let_def split: if_splits)
  then have "(j < length r \<and> 0 < r ! j) \<or> (j < length nr \<and> 0 < nr ! j)"
    using obf_random_from_list_sound by blast
  moreover have "length r = length descr" "length nr = length descr"
    using obf_eligible_weights_length [of cycles ex 0 descr] e by simp_all
  ultimately have j: "j < length descr" and pos: "0 < r ! j \<or> 0 < nr ! j" by auto
  from obf_eligible_weights_nth [OF j, of cycles ex 0] e
  have "r ! j = (if j \<noteq> ex \<and> min_cycles (descr ! j) \<le> cycles \<and> is_recursive (descr ! j)
                 then weight (descr ! j) else 0)"
       "nr ! j = (if j \<noteq> ex \<and> min_cycles (descr ! j) \<le> cycles \<and> \<not> is_recursive (descr ! j)
                 then weight (descr ! j) else 0)" by simp_all
  with pos j show ?thesis by (auto split: if_splits)
qed

lemma obf_eligible_weights_sum:
  "sum_list (fst (obf_eligible_weights cycles ex i ds)) \<le> sum_list (map weight ds)
   \<and> sum_list (snd (obf_eligible_weights cycles ex i ds)) \<le> sum_list (map weight ds)"
proof (induction ds arbitrary: i)
  case Nil
  show ?case by simp
next
  case (Cons d ds)
  from Cons [of "Suc i"] show ?case by (simp add: Let_def case_prod_beta)
qed

lemma size_t_sum_pos:
  assumes "k < length ws" "0 < ws ! k" "sum_list ws < 2 ^ 64"
  shows "0 < size_t_sum ws"
proof -
  have "ws ! k \<le> sum_list ws"
    using assms(1) by (simp add: member_le_sum_list)
  with assms show ?thesis by (simp add: size_t_sum_small)
qed

lemma obf_injection_descr_weights:
  "sum_list (map weight (obf_injection_descr W ctx cc)) < 2 ^ 64"
  by (simp add: obf_injection_descr_def Descr_def)

lemma own_min_cycles_0: "own_min_cycles 0 ctx cc = cc"
  by (simp add: own_min_cycles_def calc_cycles_def split: Context.splits)

lemma obf_random_obf_from_list_total:
  assumes k: "k < length descr" "k \<noteq> ex" "min_cycles (descr ! k) \<le> cycles"
             "0 < weight (descr ! k)"
    and small: "sum_list (map weight descr) < 2 ^ 64"
  shows "\<exists>j. obf_random_obf_from_list seed cycles descr ex = Inr j"
proof -
  obtain r nr where e: "obf_eligible_weights cycles ex 0 descr = (r, nr)"
    by (cases "obf_eligible_weights cycles ex 0 descr")
  have len: "length r = length descr" "length nr = length descr"
    using obf_eligible_weights_length [of cycles ex 0 descr] e by simp_all
  have sums: "sum_list r < 2 ^ 64" "sum_list nr < 2 ^ 64"
    using obf_eligible_weights_sum [of cycles ex 0 descr] e small by simp_all
  show ?thesis
  proof (cases "size_t_sum r \<noteq> 0")
    case True
    from obf_random_from_list_total [OF True, of seed] e True show ?thesis
      by (auto simp: obf_random_obf_from_list_def)
  next
    case False
    with k obf_eligible_weights_nth [OF k(1), of cycles ex 0] e
    have "0 < nr ! k"
      by (cases "is_recursive (descr ! k)")
         (use size_t_sum_pos [of k r] len sums in \<open>auto\<close>)
    with size_t_sum_pos [of k nr] len sums k have nz: "size_t_sum nr \<noteq> 0" by simp
    from obf_random_from_list_total [OF nz, of seed] e False nz show ?thesis
      by (auto simp: obf_random_obf_from_list_def)
  qed
qed

text \<open>
  C7 (as amended): for every budget that covers the context's \<open>context_cycles\<close> and
  every exclusion other than the identity, the identity strategy is eligible (its
  \<open>min_cycles\<close> is \<open>context_cycles + 0\<close>, its weight 1), so the selection of
  \<open>obf_injection\<close> returns a strategy: neither \<open>assert(sum_nr > 0)\<close> nor anything else
  in it fails, and the strategy returned is eligible.
\<close>

theorem C7_selection_total:
  assumes "cc \<le> cycles" and "ex \<noteq> 0"
  shows "\<exists>j. obf_random_obf_from_list seed cycles (obf_injection_descr W ctx cc) ex = Inr j
             \<and> j < 6 \<and> j \<noteq> ex
             \<and> min_cycles (obf_injection_descr W ctx cc ! j) \<le> cycles"
proof -
  let ?d = "obf_injection_descr W ctx cc"
  have "0 < length ?d" "min_cycles (?d ! 0) \<le> cycles" "0 < weight (?d ! 0)"
    using assms(1) by (simp_all add: obf_injection_descr_def Descr_def own_min_cycles_0)
  from obf_random_obf_from_list_total [OF this(1) assms(2) [symmetric] this(2,3)
       obf_injection_descr_weights, of seed]
  obtain j where j: "obf_random_obf_from_list seed cycles ?d ex = Inr j" by blast
  from obf_random_obf_from_list_sound [OF j] j show ?thesis
    by (simp add: obf_injection_descr_def)
qed

theorem C7_selection_total_witness:
  "(0::int) \<le> 30 \<and> (1::nat) \<noteq> 0
   \<and> (\<exists>j. obf_random_obf_from_list 1 30 (obf_injection_descr 32 (ObfVarContext 1 30) 0) 1 = Inr j
           \<and> j < 6 \<and> j \<noteq> 1
           \<and> min_cycles (obf_injection_descr 32 (ObfVarContext 1 30) 0 ! j) \<le> 30)"
  using C7_selection_total [of 0 30 1 1 32 "ObfVarContext 1 30"] by simp

text \<open>
  C7 as stated fails.  Under a literal context that costs 6 cycles the identity needs
  6 cycles, so a budget of 3 leaves no strategy at all; and when the identity itself is
  the excluded version, a budget of 0 leaves none either.
\<close>

theorem C7_counterexample:
  "context_cycles (ObfLiteralContext 0 6) = Inr 6
   \<and> obf_random_obf_from_list 1 3 (obf_injection_descr 8 (ObfLiteralContext 0 6) 6) no_exclude
       = Inl AssertSumNr
   \<and> obf_random_obf_from_list 1 0 (obf_injection_descr 32 (ObfVarContext 0 0) 0) 0
       = Inl AssertSumNr"
  by (simp add: context_cycles_def ObfLiteralContext_which_def obf_literal_context_descr_def
      obf_random_obf_from_list_def obf_injection_descr_def Descr_def own_min_cycles_def
      calc_cycles_def literal_cycles_def no_exclude_def size_t_sum_def
      obf_random_from_list_def obf_weak_random_def lcg_step_def drop_bit_eq_div)

text \<open>
  C6 (as amended): at the minimal width of 8 bits the three strategies that split the
  value into half-width lanes (2, 3 and 5) have weight zero and are never selected; the
  additive strategy 1 and the multiplying strategy 4, which nest a child injection of the
  same width, keep their weight 100 and their recursive flag.
\<close>

theorem C6_minimal_width:
  "(\<forall>v \<in> {2, 3, 5}. weight (obf_injection_descr 8 ctx cc ! v) = 0)
   \<and> (\<forall>v \<in> {1, 4}. is_recursive (obf_injection_descr 8 ctx cc ! v)
                   \<and> weight (obf_injection_descr 8 ctx cc ! v) = 100)
   \<and> (\<forall>j. obf_random_obf_from_list seed cycles (obf_injection_descr 8 ctx cc) ex = Inr j
           \<longrightarrow> j \<in> {0, 1, 4})"
proof (intro conjI allI impI)
  fix j
  assume "obf_random_obf_from_list seed cycles (obf_injection_descr 8 ctx cc) ex = Inr j"
  from obf_random_obf_from_list_sound [OF this]
  have "j < 6" and "0 < weight (obf_injection_descr 8 ctx cc ! j)"
    by (simp_all add: obf_injection_descr_def)
  then show "j \<in> {0, 1, 4}"
    by (auto simp: obf_injection_descr_def Descr_def less_Suc_eq numeral_eq_Suc)
qed (simp_all add: obf_injection_descr_def Descr_def)

theorem C6_minimal_width_witness:
  "obf_random_obf_from_list 1 10 (obf_injection_descr 8 (ObfVarContext 0 10) 0) no_exclude = Inr 1
   \<and> (1::nat) \<in> {0, 1, 4}
   \<and> weight (obf_injection_descr 8 (ObfVarContext 0 10) 0 ! 2) = 0
   \<and> weight (obf_injection_descr 8 (ObfVarContext 0 10) 0 ! 3) = 0
   \<and> weight (obf_injection_descr 8 (ObfVarContext 0 10) 0 ! 5) = 0"
proof -
  have s: "obf_random_obf_from_list 1 10 (obf_injection_descr 8 (ObfVarContext 0 10) 0) no_exclude
           = Inr 1"
    by (simp add: obf_random_obf_from_list_def obf_injection_descr_def Descr_def
        own_min_cycles_def calc_cycles_def literal_cycles_def no_exclude_def size_t_sum_def
        obf_random_from_list_def obf_weak_random_def drop_bit_eq_div)
  with C6_minimal_width [of "ObfVarContext 0 10" 0 1 10 no_exclude] show ?thesis by simp
qed

text \<open>
  C6 as stated fails: with a budget of 10 cycles an 8-bit variable's injection selects
  strategy 1, whose descriptor is recursive (it nests \<open>RecursiveInjection\<close>).
\<close>

theorem C6_counterexample:
  "obf_random_obf_from_list 1 10 (obf_injection_descr 8 (ObfVarContext 0 10) 0) no_exclude = Inr 1
   \<and> is_recursive (obf_injection_descr 8 (ObfVarContext 0 10) 0 ! 1)
   \<and> weight (obf_injection_descr 8 (ObfVarContext 0 10) 0 ! 1) = 100"
  by (simp add: obf_random_obf_from_list_def obf_injection_descr_def Descr_def
      own_min_cycles_def calc_cycles_def literal_cycles_def no_exclude_def size_t_sum_def
      obf_random_from_list_def obf_weak_random_def drop_bit_eq_div)

section \<open>Rounding to \<open>double\<close>\<close>















section \<open>The budget splitter\<close>







lemma split_scale_sound:
  "split_scale q rs = Inr vs \<Longrightarrow>
   vs = map (\<lambda>r. double_trunc (double_mul (double_of_int r) q)) rs"
  by (induction rs arbitrary: vs) (auto simp: Let_def rbind_Inr_iff split: if_splits)






















section \<open>The rolling-counter leaf context\<close>





lemma trunc_T_less: "trunc_T W x < 2 ^ W"
  by (simp add: trunc_T_def)












lemma promoted_cases: "promoted W x = x \<or> (32 \<le> W \<and> promoted W x = x mod 2 ^ W)"
  by (simp add: promoted_def)












end
